theory Spec2Isabelle
  imports Main "HOL-Library.Word" "HOL-Library.Sublist"
begin

unbundle bit_operations_syntax

section \<open>Streaming upload of the S3 client: \<open>pkg/client/s3/object_put.go\<close>\<close>

text \<open>
  The development embeds \<open>s3Client.Put\<close>, the goroutine it starts, and the
  \<open>BlockingWriteCloser\<close> the caller receives. Go strings are byte sequences and are
  modelled as \<open>string\<close> (a list of 8-bit \<open>char\<close>); \<open>[]byte\<close> is a list of \<open>8 word\<close>;
  \<open>int64\<close> is \<open>64 word\<close> read with \<open>sint\<close>; a Go \<open>error\<close> is an \<open>error option\<close>
  with \<open>None\<close> for \<open>nil\<close>.
\<close>

subsection \<open>Errors, requests and responses\<close>

record response =
  StatusCode :: int
  Body :: string

text \<open>
  The error values the code can produce. \<open>NewError res\<close> is the value of the package's
  \<open>NewError(res)\<close> (declared outside the file at hand, kept abstract as a constructor
  carrying the response); \<open>Iodine e\<close> is \<open>iodine.New(e, nil)\<close>, which wraps a non-nil
  error; \<open>Failure msg\<close> stands for an error returned by a collaborator (\<open>newRequest\<close>,
  \<open>Transport.RoundTrip\<close>); \<open>ErrLength\<close> and \<open>InvalidByteError\<close> are those of
  \<open>encoding/hex\<close>, \<open>ErrClosedPipe\<close> and \<open>EOF\<close> those of \<open>io\<close>.
\<close>

datatype error =
    InvalidBucketName string
  | InvalidArgument string
  | ErrLength
  | InvalidByteError char
  | ErrClosedPipe
  | EOF
  | NewError response
  | Failure string
  | Iodine error

text \<open>
  An outgoing request. Its body is the read end of the pipe and is not a field here.
  \<open>Header.Set\<close> replaces the value stored under a key (Go also canonicalises the key's
  capitalisation, which the model leaves as written).
\<close>

record request =
  Method :: string
  URL :: string
  ContentLength :: "64 word"
  Header :: "(string \<times> string) list"

fun Header_Set :: "string \<Rightarrow> string \<Rightarrow> (string \<times> string) list \<Rightarrow> (string \<times> string) list" where
  "Header_Set k v [] = [(k, v)]"
| "Header_Set k v ((k', v') # h) = (if k = k' then (k, v) # h else (k', v') # Header_Set k v h)"

definition Header_Get :: "(string \<times> string) list \<Rightarrow> string \<Rightarrow> string option" where
  "Header_Get h k = map_of h k"

record s3Client =
  AccessKeyID :: string
  SecretAccessKey :: string
  Host :: string
  Transport :: "request \<Rightarrow> error + response"

text \<open>
  The methods and package functions that \<open>Put\<close> calls and that are declared in other
  files: they are parameters of the model. \<open>Transport\<close> above is the client's
  \<open>Transport.RoundTrip\<close>; it is called at most once per upload, so a function of the
  request describes it. What the transport does with the body while the call lasts
  (reading it, closing it) is not part of the model: only the goroutine closes the read
  end of the pipe.
\<close>

record collaborators =
  url2BucketAndObject :: "s3Client \<Rightarrow> string \<times> string"
  IsValidBucketName :: "string \<Rightarrow> bool"
  objectURL :: "s3Client \<Rightarrow> string \<Rightarrow> string \<Rightarrow> string"
  newRequest :: "s3Client \<Rightarrow> string \<Rightarrow> string \<Rightarrow> error + request"
  signRequest :: "s3Client \<Rightarrow> request \<Rightarrow> string \<Rightarrow> request"

subsection \<open>The library functions on strings and bytes\<close>

text \<open>\<open>strings.Contains\<close>.\<close>

fun Contains :: "string \<Rightarrow> string \<Rightarrow> bool" where
  "Contains [] sub = (sub = [])"
| "Contains (c # s) sub = (prefix sub (c # s) \<or> Contains s sub)"

text \<open>
  \<open>strings.TrimSpace\<close> removes leading and trailing white space as \<open>unicode.IsSpace\<close>
  defines it, decoding the bytes as UTF-8. A rune is white space exactly when the bytes
  at that place are one of the encodings below: the six ASCII ones, U+0085, U+00A0,
  U+1680, U+2000 to U+200A, U+2028, U+2029, U+202F, U+205F and U+3000. Invalid UTF-8
  decodes to U+FFFD, which is not white space, so trimming stops there.
\<close>

definition space_runes :: "string list" where
  "space_runes =
    [[CHR 0x09], [CHR 0x0A], [CHR 0x0B], [CHR 0x0C], [CHR 0x0D], [CHR 0x20],
     [CHR 0xC2, CHR 0x85], [CHR 0xC2, CHR 0xA0],
     [CHR 0xE1, CHR 0x9A, CHR 0x80],
     [CHR 0xE2, CHR 0x80, CHR 0x80], [CHR 0xE2, CHR 0x80, CHR 0x81],
     [CHR 0xE2, CHR 0x80, CHR 0x82], [CHR 0xE2, CHR 0x80, CHR 0x83],
     [CHR 0xE2, CHR 0x80, CHR 0x84], [CHR 0xE2, CHR 0x80, CHR 0x85],
     [CHR 0xE2, CHR 0x80, CHR 0x86], [CHR 0xE2, CHR 0x80, CHR 0x87],
     [CHR 0xE2, CHR 0x80, CHR 0x88], [CHR 0xE2, CHR 0x80, CHR 0x89],
     [CHR 0xE2, CHR 0x80, CHR 0x8A],
     [CHR 0xE2, CHR 0x80, CHR 0xA8], [CHR 0xE2, CHR 0x80, CHR 0xA9],
     [CHR 0xE2, CHR 0x80, CHR 0xAF], [CHR 0xE2, CHR 0x81, CHR 0x9F],
     [CHR 0xE3, CHR 0x80, CHR 0x80]]"

definition leading_rune :: "string list \<Rightarrow> string \<Rightarrow> string option" where
  "leading_rune rs s = find (\<lambda>r. r \<noteq> [] \<and> prefix r s) rs"

function trim_leading :: "string list \<Rightarrow> string \<Rightarrow> string" where
  "trim_leading rs s =
     (case leading_rune rs s of
        None \<Rightarrow> s
      | Some r \<Rightarrow> trim_leading rs (drop (length r) s))"
  by pat_completeness auto
termination
proof (relation "measure (\<lambda>(rs, s). length s)")
  show "wf (measure (\<lambda>(rs, s). length s))"
    by simp
next
  fix rs :: "string list" and s r :: string
  assume "leading_rune rs s = Some r"
  then have "r \<noteq> [] \<and> prefix r s"
    by (auto simp: leading_rune_def find_Some_iff)
  then have "length (drop (length r) s) < length s"
    by (cases s) (auto simp: prefix_def)
  then show "((rs, drop (length r) s), (rs, s)) \<in> measure (\<lambda>(rs, s). length s)"
    by simp
qed

declare trim_leading.simps [simp del]

definition TrimLeft :: "string \<Rightarrow> string" where
  "TrimLeft s = trim_leading space_runes s"

definition TrimRight :: "string \<Rightarrow> string" where
  "TrimRight s = rev (trim_leading (map rev space_runes) (rev s))"

definition TrimSpace :: "string \<Rightarrow> string" where
  "TrimSpace s = TrimRight (TrimLeft s)"

text \<open>
  \<open>hex.DecodeString\<close>: an odd length is \<open>ErrLength\<close>; otherwise each pair of
  characters gives one byte, and the first character that is no hex digit gives
  \<open>InvalidByteError\<close>. Digits of both cases are accepted. (Later releases of the
  library look for an invalid character before they report an odd length; nothing
  below depends on which of the two errors a string gets.)
\<close>

definition fromHexChar :: "char \<Rightarrow> 8 word option" where
  "fromHexChar c =
     (let n = (of_char c :: nat) in
      if 48 \<le> n \<and> n \<le> 57 then Some (of_nat (n - 48))
      else if 97 \<le> n \<and> n \<le> 102 then Some (of_nat (n - 97 + 10))
      else if 65 \<le> n \<and> n \<le> 70 then Some (of_nat (n - 65 + 10))
      else None)"

fun Decode :: "string \<Rightarrow> error + 8 word list" where
  "Decode (x # y # rest) =
     (case fromHexChar x of
        None \<Rightarrow> Inl (InvalidByteError x)
      | Some a \<Rightarrow>
         (case fromHexChar y of
            None \<Rightarrow> Inl (InvalidByteError y)
          | Some b \<Rightarrow>
             (case Decode rest of
                Inl e \<Rightarrow> Inl e
              | Inr bs \<Rightarrow> Inr ((push_bit 4 a OR b) # bs))))"
| "Decode _ = Inr []"

definition DecodeString :: "string \<Rightarrow> error + 8 word list" where
  "DecodeString s = (if odd (length s) then Inl ErrLength else Decode s)"

text \<open>
  \<open>base64.StdEncoding.EncodeToString\<close>: three bytes become four characters of the
  standard alphabet; a rest of one or two bytes is padded with \<open>=\<close>.
\<close>

definition encodeStd :: string where
  "encodeStd = ''ABCDEFGHIJKLMNOPQRSTUVWXYZabcdefghijklmnopqrstuvwxyz0123456789+/''"

definition enc :: "32 word \<Rightarrow> char" where
  "enc v = encodeStd ! unat (v AND 0x3F)"

fun EncodeToString :: "8 word list \<Rightarrow> string" where
  "EncodeToString (a # b # c # rest) =
     (let val = push_bit 16 (ucast a) OR push_bit 8 (ucast b) OR ucast c in
      enc (drop_bit 18 val) # enc (drop_bit 12 val) # enc (drop_bit 6 val) # enc val
        # EncodeToString rest)"
| "EncodeToString [a, b] =
     (let val = push_bit 16 (ucast a) OR push_bit 8 (ucast b) in
      [enc (drop_bit 18 val), enc (drop_bit 12 val), enc (drop_bit 6 val), CHR ''=''])"
| "EncodeToString [a] =
     (let val = push_bit 16 (ucast a) in
      [enc (drop_bit 18 val), enc (drop_bit 12 val), CHR ''='', CHR ''=''])"
| "EncodeToString [] = []"

subsection \<open>The goroutine of \<open>Put\<close>\<close>

text \<open>
  What the goroutine does to the world outside itself, in program order: the call of
  \<open>c.Transport.RoundTrip\<close>, closing the read end of the pipe (\<open>r.CloseWithError(err)\<close>
  or \<open>r.Close()\<close>) and the call \<open>blockingWriter.Release(err)\<close>. Its control flow
  depends on its arguments and on what the collaborators return, never on the shared
  handle, so the list of these actions describes it completely.
\<close>

datatype action =
    RoundTripCall request
  | CloseWithError error
  | CloseReader
  | ReleaseCall "error option"

text \<open>The three lines every failing branch ends with.\<close>

definition abort :: "error \<Rightarrow> action list" where
  "abort err = [CloseWithError err, ReleaseCall (Some err)]"

text \<open>Lines 59 to 69: the \<open>Content-MD5\<close> header.\<close>

definition Content_MD5 :: "string \<Rightarrow> request \<Rightarrow> error + request" where
  "Content_MD5 md5HexString req =
     (if TrimSpace md5HexString \<noteq> [] then
        (case DecodeString md5HexString of
           Inl err \<Rightarrow> Inl err
         | Inr md5 \<Rightarrow>
            Inr (req\<lparr>Header := Header_Set ''Content-MD5'' (EncodeToString md5) (Header req)\<rparr>))
      else Inr req)"

text \<open>Lines 70 to 72: signing, when both credentials are set.\<close>

definition sign :: "collaborators \<Rightarrow> s3Client \<Rightarrow> request \<Rightarrow> request" where
  "sign k c req =
     (if AccessKeyID c \<noteq> [] \<and> SecretAccessKey c \<noteq> [] then signRequest k c req (Host c)
      else req)"

definition goroutine ::
  "collaborators \<Rightarrow> s3Client \<Rightarrow> string \<Rightarrow> string \<Rightarrow> string \<Rightarrow> 64 word \<Rightarrow> action list" where
  "goroutine k c bucket object md5HexString size' =
     (if sint size' < 0 then abort (Iodine (InvalidArgument ''invalid argument''))
      else
        (case newRequest k c ''PUT'' (objectURL k c bucket object) of
           Inl err \<Rightarrow> abort (Iodine err)
         | Inr req \<Rightarrow>
            (case Content_MD5 md5HexString (req\<lparr>Method := ''PUT'', ContentLength := size'\<rparr>) of
               Inl err \<Rightarrow> abort (Iodine err)
             | Inr req' \<Rightarrow>
                RoundTripCall (sign k c req') #
                  (case Transport c (sign k c req') of
                     Inl err \<Rightarrow> abort (Iodine err)
                   | Inr res \<Rightarrow>
                      if StatusCode res \<noteq> 200 then abort (Iodine (NewError res))
                      else [CloseReader, ReleaseCall None]))))"

subsection \<open>The pipe\<close>

text \<open>
  \<open>io.Pipe()\<close> makes one pipe with a read end \<open>r\<close> and a write end \<open>w\<close>. Of its
  state the model keeps the two fields that decide what a call returns: \<open>rerr\<close>, set
  when the read end is closed, and \<open>werr\<close>, set when the write end is closed.
  \<^item> \<open>r.CloseWithError(err)\<close> stores \<open>err\<close> in \<open>rerr\<close>, and \<open>ErrClosedPipe\<close> when
    \<open>err\<close> is nil; \<open>r.Close()\<close> is \<open>r.CloseWithError(nil)\<close>.
  \<^item> \<open>w.Close()\<close> stores \<open>EOF\<close> in \<open>werr\<close> and returns nil, always.
  \<^item> \<open>w.Write(p)\<close> returns \<open>ErrClosedPipe\<close> when the write end is closed, else the
    error in \<open>rerr\<close> when the read end is closed; else it blocks until the reader has
    taken all of \<open>p\<close> and returns \<open>len(p)\<close> and nil. The model takes the reader of an
    open pipe to consume what is written, so a write on an open pipe is one step.
\<close>

record pipe =
  rerr :: "error option"
  werr :: "error option"

definition Pipe :: pipe where
  "Pipe = \<lparr>rerr = None, werr = None\<rparr>"

definition PipeReader_CloseWithError :: "error option \<Rightarrow> pipe \<Rightarrow> pipe" where
  "PipeReader_CloseWithError e p =
     p\<lparr>rerr := Some (case e of None \<Rightarrow> ErrClosedPipe | Some x \<Rightarrow> x)\<rparr>"

definition PipeWriter_Close :: "pipe \<Rightarrow> error option \<times> pipe" where
  "PipeWriter_Close p = (None, p\<lparr>werr := Some EOF\<rparr>)"

definition PipeWriter_Write :: "8 word list \<Rightarrow> pipe \<Rightarrow> nat \<times> error option" where
  "PipeWriter_Write bs p =
     (if werr p \<noteq> None then (0, Some ErrClosedPipe)
      else (case rerr p of Some e \<Rightarrow> (0, Some e) | None \<Rightarrow> (length bs, None)))"

subsection \<open>\<open>BlockingWriteCloser\<close>\<close>

text \<open>
  The field \<open>release\<close> is the counter of the \<open>sync.WaitGroup\<close>: \<open>Add(1)\<close> at
  construction, \<open>Done()\<close> subtracts one and panics when the counter becomes negative,
  \<open>Wait()\<close> returns once the counter is zero.
\<close>

record BlockingWriteCloser =
  w :: pipe
  release :: int
  err :: "error option"

datatype panic = NegativeWaitGroupCounter

definition NewBlockingWriteCloser :: "pipe \<Rightarrow> BlockingWriteCloser" where
  "NewBlockingWriteCloser pw = \<lparr>w = pw, release = 0 + 1, err = None\<rparr>"

definition Write :: "8 word list \<Rightarrow> BlockingWriteCloser \<Rightarrow> (nat \<times> error option) \<times> BlockingWriteCloser" where
  "Write bs b =
     (let (n, e) = PipeWriter_Write bs (w b);
          b' = (if e \<noteq> None then b\<lparr>err := e\<rparr> else b)
      in ((n, err b'), b'))"

text \<open>
  \<open>Release\<close> is two statements: \<open>b.release.Done()\<close>, then the assignment of a non-nil
  error to \<open>b.err\<close>.
\<close>

definition Done :: "BlockingWriteCloser \<Rightarrow> panic + BlockingWriteCloser" where
  "Done b =
     (if release b - 1 < 0 then Inl NegativeWaitGroupCounter
      else Inr (b\<lparr>release := release b - 1\<rparr>))"

definition record_err :: "error option \<Rightarrow> BlockingWriteCloser \<Rightarrow> BlockingWriteCloser" where
  "record_err e b = (if e \<noteq> None then b\<lparr>err := e\<rparr> else b)"

definition Release :: "error option \<Rightarrow> BlockingWriteCloser \<Rightarrow> panic + BlockingWriteCloser" where
  "Release e b = (case Done b of Inl p \<Rightarrow> Inl p | Inr b' \<Rightarrow> Inr (record_err e b'))"

text \<open>
  \<open>Close\<close> closes the writer and records its error (lines 112 to 115), waits for the
  counter to be zero (line 116) and returns \<open>b.err\<close> (line 117). Called on its own,
  it returns nothing while the counter is not zero: that is \<open>None\<close> here.
\<close>

definition Close_writer :: "BlockingWriteCloser \<Rightarrow> BlockingWriteCloser" where
  "Close_writer b =
     (let (e, pw) = PipeWriter_Close (w b); b' = b\<lparr>w := pw\<rparr>
      in if e \<noteq> None then b'\<lparr>err := e\<rparr> else b')"


subsection \<open>One upload: the caller and the goroutine side by side\<close>

text \<open>
  The goroutine and the caller share the handle and, through it, the pipe. Each action
  of the goroutine is one step, except \<open>Release\<close>, which is the two statements of its
  body. The caller writes and closes; inside \<open>Close\<close> it is first \<open>Waiting\<close> (the
  writer is closed, \<open>Wait\<close> has not returned) and then \<open>Woken\<close> (\<open>Wait\<close> has returned,
  \<open>b.err\<close> is not yet read).
\<close>

datatype step =
    Transfer request
  | ReaderClose "error option"
  | WgDone
  | StoreErr error

fun steps :: "action \<Rightarrow> step list" where
  "steps (RoundTripCall req) = [Transfer req]"
| "steps (CloseWithError e) = [ReaderClose (Some e)]"
| "steps CloseReader = [ReaderClose None]"
| "steps (ReleaseCall e) = WgDone # (case e of None \<Rightarrow> [] | Some x \<Rightarrow> [StoreErr x])"

datatype place = Outside | Waiting | Woken

datatype ret = WriteRet nat "error option" | CloseRet "error option"

record upload =
  handle :: BlockingWriteCloser
  todo :: "step list"
  sent :: "request list"
  place :: place
  returned :: "ret list"

text \<open>
  \<open>Put\<close>: the bucket name is checked first; then the pipe and the handle are made, the
  goroutine is started with all its steps still to do, and the handle is returned with a
  nil error.
\<close>

definition Put :: "collaborators \<Rightarrow> s3Client \<Rightarrow> string \<Rightarrow> 64 word \<Rightarrow> error + upload" where
  "Put k c md5HexString size' =
     (let (bucket, object) = url2BucketAndObject k c in
      if \<not> IsValidBucketName k bucket \<or> Contains bucket ''.''
      then Inl (Iodine (InvalidBucketName bucket))
      else
        let blockingWriter = NewBlockingWriteCloser Pipe in
        Inr \<lparr>handle = blockingWriter,
             todo = concat (map steps (goroutine k c bucket object md5HexString size')),
             sent = [],
             place = Outside,
             returned = []\<rparr>)"

text \<open>
  The events of an execution: \<open>Work\<close> is the goroutine's next step; the others are the
  caller's. An event that cannot happen in a state (the goroutine has finished, the
  caller is elsewhere, \<open>Wait\<close> with a counter that is not zero) gives \<open>None\<close>.
\<close>

datatype event = Work | DoWrite "8 word list" | EnterClose | Wake | Return

fun exec :: "step \<Rightarrow> upload \<Rightarrow> panic + upload" where
  "exec (Transfer req) u = Inr (u\<lparr>sent := sent u @ [req]\<rparr>)"
| "exec (ReaderClose e) u =
     Inr (u\<lparr>handle := (handle u)\<lparr>w := PipeReader_CloseWithError e (w (handle u))\<rparr>\<rparr>)"
| "exec WgDone u =
     (case Done (handle u) of Inl p \<Rightarrow> Inl p | Inr b \<Rightarrow> Inr (u\<lparr>handle := b\<rparr>))"
| "exec (StoreErr e) u = Inr (u\<lparr>handle := record_err (Some e) (handle u)\<rparr>)"

fun move :: "event \<Rightarrow> upload \<Rightarrow> (panic + upload) option" where
  "move Work u =
     (case todo u of [] \<Rightarrow> None | s # rest \<Rightarrow> Some (exec s (u\<lparr>todo := rest\<rparr>)))"
| "move (DoWrite bs) u =
     (if place u = Outside then
        (let ((n, e), b) = Write bs (handle u)
         in Some (Inr (u\<lparr>handle := b, returned := returned u @ [WriteRet n e]\<rparr>)))
      else None)"
| "move EnterClose u =
     (if place u = Outside
      then Some (Inr (u\<lparr>handle := Close_writer (handle u), place := Waiting\<rparr>))
      else None)"
| "move Wake u =
     (if place u = Waiting \<and> release (handle u) = 0 then Some (Inr (u\<lparr>place := Woken\<rparr>))
      else None)"
| "move Return u =
     (if place u = Woken
      then Some (Inr (u\<lparr>place := Outside, returned := returned u @ [CloseRet (err (handle u))]\<rparr>))
      else None)"

fun run :: "event list \<Rightarrow> upload \<Rightarrow> (panic + upload) option" where
  "run [] u = Some (Inr u)"
| "run (ev # evs) u =
     (case move ev u of
        None \<Rightarrow> None
      | Some (Inl p) \<Rightarrow> Some (Inl p)
      | Some (Inr u') \<Rightarrow> run evs u')"

text \<open>
  What the caller has seen when an execution ends without a panic, and what it sees
  when the events are run on the result of \<open>Put\<close>.
\<close>

definition results :: "(panic + upload) option \<Rightarrow> ret list option" where
  "results r = (case r of Some (Inr u') \<Rightarrow> Some (returned u') | _ \<Rightarrow> None)"

definition observed :: "event list \<Rightarrow> error + upload \<Rightarrow> ret list option" where
  "observed evs r = (case r of Inl e \<Rightarrow> None | Inr u \<Rightarrow> results (run evs u))"

subsection \<open>A stub client\<close>

text \<open>
  A client for concrete runs: the bucket is \<open>bucket\<close>, every bucket name without
  capitals is valid, \<open>newRequest\<close> succeeds with an empty header, signing adds an
  \<open>Authorization\<close> header, and the transport answers every request the same way.
\<close>

definition stub_collaborators :: collaborators where
  "stub_collaborators =
     \<lparr>url2BucketAndObject = (\<lambda>c. (''bucket'', ''object'')),
      IsValidBucketName = (\<lambda>s. s \<noteq> [] \<and> list_all (\<lambda>ch. ch \<notin> set ''ABCDEFGHIJKLMNOPQRSTUVWXYZ'') s),
      objectURL = (\<lambda>c bucket object. ''/'' @ bucket @ ''/'' @ object),
      newRequest = (\<lambda>c method url.
         Inr \<lparr>Method = method, URL = url, ContentLength = 0, Header = []\<rparr>),
      signRequest = (\<lambda>c req host.
         req\<lparr>Header := Header_Set ''Authorization'' (''AWS '' @ AccessKeyID c) (Header req)\<rparr>)\<rparr>"

definition stub_client :: "(error + response) \<Rightarrow> s3Client" where
  "stub_client answer =
     \<lparr>AccessKeyID = [], SecretAccessKey = [], Host = ''localhost'',
      Transport = (\<lambda>req. answer)\<rparr>"

section \<open>Properties\<close>

subsection \<open>Auxiliary definitions\<close>

text \<open>Successive writes by the caller, with the values they return.\<close>

fun Writes :: "8 word list list \<Rightarrow> BlockingWriteCloser \<Rightarrow> (nat \<times> error option) list \<times> BlockingWriteCloser" where
  "Writes [] b = ([], b)"
| "Writes (bs # bss) b =
     (let (r, b') = Write bs b; (rs, b'') = Writes bss b' in (r # rs, b''))"

fun is_ReleaseCall :: "action \<Rightarrow> bool" where
  "is_ReleaseCall (ReleaseCall e) = True"
| "is_ReleaseCall a = False"

fun is_RoundTripCall :: "action \<Rightarrow> bool" where
  "is_RoundTripCall (RoundTripCall req) = True"
| "is_RoundTripCall a = False"

fun is_Transfer :: "step \<Rightarrow> bool" where
  "is_Transfer (Transfer req) = True"
| "is_Transfer s = False"


text \<open>A caller's complete \<open>Close\<close>: entering, waking up and returning.\<close>

definition close_call :: "event list" where
  "close_call = [EnterClose, Wake, Return]"

text \<open>
  A string that consists only of white space: a sequence of encodings of white-space
  runes; the empty string is one. A string of hex digits of even length is valid hex.
\<close>

inductive only_white_space :: "string \<Rightarrow> bool" where
  empty: "only_white_space []"
| rune: "r \<in> set space_runes \<Longrightarrow> only_white_space s \<Longrightarrow> only_white_space (r @ s)"

definition is_hex_digit :: "char \<Rightarrow> bool" where
  "is_hex_digit ch = (ch \<in> set ''0123456789abcdefABCDEF'')"

definition valid_hex :: "string \<Rightarrow> bool" where
  "valid_hex s = (even (length s) \<and> list_all is_hex_digit s)"

subsection \<open>The shape of the goroutine\<close>

lemma goroutine_cases:
  "(\<exists>e. goroutine k c bucket object md5HexString size' = abort e)
   \<or> (\<exists>req e. goroutine k c bucket object md5HexString size' = RoundTripCall req # abort e)
   \<or> (\<exists>req. goroutine k c bucket object md5HexString size'
          = [RoundTripCall req, CloseReader, ReleaseCall None])"
  unfolding goroutine_def
  by (auto split: sum.splits)

lemma goroutine_answer:
  assumes "\<not> sint size' < 0"
    and "newRequest k c ''PUT'' (objectURL k c bucket object) = Inr req"
    and "Content_MD5 md5HexString (req\<lparr>Method := ''PUT'', ContentLength := size'\<rparr>) = Inr req'"
  shows "goroutine k c bucket object md5HexString size' =
           RoundTripCall (sign k c req') #
             (case Transport c (sign k c req') of
                Inl e \<Rightarrow> abort (Iodine e)
              | Inr res \<Rightarrow>
                 if StatusCode res = 200 then [CloseReader, ReleaseCall None]
                 else abort (Iodine (NewError res)))"
  using assms unfolding goroutine_def
  by (simp split: sum.splits)

subsection \<open>The handle's operations\<close>

lemma Release_steps:
  "Release e b =
     (case Done b of Inl p \<Rightarrow> Inl p
      | Inr b' \<Rightarrow> Inr (case e of None \<Rightarrow> b' | Some x \<Rightarrow> record_err (Some x) b'))"
  by (simp add: Release_def record_err_def split: sum.splits option.splits)

lemma Write_result:
  "Write bs b =
     (if werr (w b) \<noteq> None then ((0, Some ErrClosedPipe), b\<lparr>err := Some ErrClosedPipe\<rparr>)
      else case rerr (w b) of
             Some e \<Rightarrow> ((0, Some e), b\<lparr>err := Some e\<rparr>)
           | None \<Rightarrow> ((length bs, err b), b))"
  by (simp add: Write_def PipeWriter_Write_def split: option.splits)

lemma Write_keeps [simp]:
  "w (snd (Write bs b)) = w b" "release (snd (Write bs b)) = release b"
  by (simp_all add: Write_result split: option.splits)

lemma Close_writer_result:
  "Close_writer b = b\<lparr>w := (w b)\<lparr>werr := Some EOF\<rparr>\<rparr>"
  by (simp add: Close_writer_def PipeWriter_Close_def)


lemma Writes_keep [simp]:
  "w (snd (Writes bss b)) = w b" "release (snd (Writes bss b)) = release b"
  by (induction bss arbitrary: b) (simp_all split: prod.splits, (metis Write_keeps snd_conv)+)








subsection \<open>Executions\<close>

lemma exec_frame:
  "exec s u = Inr u' \<Longrightarrow> place u' = place u \<and> returned u' = returned u \<and> todo u' = todo u"
  by (cases s) (auto split: sum.splits)










lemma exec_Done_count:
  assumes "release (handle u) = int (length (filter ((=) WgDone) (s # rest)))"
  shows "\<exists>u'. exec s (u\<lparr>todo := rest\<rparr>) = Inr u'
            \<and> release (handle u') = int (length (filter ((=) WgDone) (todo u')))"
  using assms by (cases s) (auto simp: Done_def record_err_def)

lemma move_no_panic:
  assumes "release (handle u) = int (length (filter ((=) WgDone) (todo u)))"
  shows "move ev u \<noteq> Some (Inl p)"
    and "move ev u = Some (Inr u') \<Longrightarrow>
         release (handle u') = int (length (filter ((=) WgDone) (todo u')))"
proof -
  show "move ev u \<noteq> Some (Inl p)"
  proof (cases ev)
    case Work
    show ?thesis
    proof (cases "todo u")
      case Nil
      with Work show ?thesis by simp
    next
      case (Cons s rest)
      with exec_Done_count [of u s rest] assms Work show ?thesis by auto
    qed
  qed (auto split: prod.splits)
  show "release (handle u') = int (length (filter ((=) WgDone) (todo u')))"
    if "move ev u = Some (Inr u')"
  proof (cases ev)
    case Work
    show ?thesis
    proof (cases "todo u")
      case Nil
      with Work that show ?thesis by simp
    next
      case (Cons s rest)
      with exec_Done_count [of u s rest] assms Work that show ?thesis by auto
    qed
  next
    case (DoWrite bs)
    with that assms show ?thesis
      by (auto simp: Write_result split: if_splits option.splits)
  qed (use that assms in \<open>auto simp: Close_writer_result split: if_splits\<close>)
qed

lemma run_no_panic:
  "release (handle u) = int (length (filter ((=) WgDone) (todo u))) \<Longrightarrow>
   run evs u \<noteq> Some (Inl p)"
proof (induction evs arbitrary: u)
  case Nil
  then show ?case by simp
next
  case (Cons ev evs)
  show ?case
  proof (cases "move ev u")
    case None
    then show ?thesis by simp
  next
    case (Some r)
    show ?thesis
    proof (cases r)
      case (Inl p')
      with Some move_no_panic(1) [OF Cons.prems] show ?thesis by blast
    next
      case (Inr u1)
      with Some move_no_panic(2) [OF Cons.prems] Cons.IH [of u1] show ?thesis by simp
    qed
  qed
qed

lemma Put_one_Done:
  "Put k c md5HexString size' = Inr u \<Longrightarrow>
   release (handle u) = int (length (filter ((=) WgDone) (todo u)))"
  using goroutine_cases [of k c "fst (url2BucketAndObject k c)" "snd (url2BucketAndObject k c)"
      md5HexString size']
  by (auto simp: Put_def NewBlockingWriteCloser_def abort_def split: prod.splits if_splits)

subsection \<open>White space and hex digits\<close>

lemma space_runes_nonempty: "[] \<notin> set space_runes"
  by (simp add: space_runes_def)

lemma find_False: "find (\<lambda>r. False) xs = None"
  by (induction xs) simp_all

lemma space_runes_distinct_prefix:
  "list_all (\<lambda>r. list_all (\<lambda>r'. prefix r' r \<longrightarrow> r' = r) space_runes) space_runes"
  by code_simp

lemma space_runes_prefix_free:
  assumes "r \<in> set space_runes" and "r' \<in> set space_runes" and "prefix r' (r @ s)"
  shows "r' = r"
proof -
  from assms(3) have "prefix r' r \<or> prefix r r'"
    by (metis prefix_append prefixI)
  moreover from space_runes_distinct_prefix assms(1,2)
  have "prefix r' r \<longrightarrow> r' = r" "prefix r r' \<longrightarrow> r = r'"
    by (auto simp: list_all_iff)
  ultimately show ?thesis by blast
qed

lemma leading_rune_None:
  "leading_rune rs s = None \<longleftrightarrow> (\<forall>r \<in> set rs. r = [] \<or> \<not> prefix r s)"
  by (auto simp: leading_rune_def find_None_iff)

lemma leading_rune_Some:
  "leading_rune rs s = Some r \<Longrightarrow> r \<in> set rs \<and> r \<noteq> [] \<and> prefix r s"
  by (auto simp: leading_rune_def find_Some_iff)

lemma trim_leading_rune:
  assumes "r \<in> set space_runes"
  shows "trim_leading space_runes (r @ s) = trim_leading space_runes s"
proof -
  have "r \<noteq> []" using assms space_runes_nonempty by auto
  with assms have "leading_rune space_runes (r @ s) \<noteq> None"
    by (auto simp: leading_rune_None)
  then obtain r' where r': "leading_rune space_runes (r @ s) = Some r'" by blast
  from leading_rune_Some [OF r'] assms have "r' = r"
    using space_runes_prefix_free by blast
  with r' show ?thesis
    by (subst trim_leading.simps) simp
qed

lemma trim_leading_decomp:
  "\<exists>rl. set rl \<subseteq> set rs \<and> [] \<notin> set rl \<and> s = concat rl @ trim_leading rs s"
proof (induction rs s rule: trim_leading.induct)
  case (1 rs s)
  show ?case
  proof (cases "leading_rune rs s")
    case None
    then have "trim_leading rs s = s" by (subst trim_leading.simps) simp
    then show ?thesis by (intro exI [of _ "[]"]) simp
  next
    case (Some r)
    from leading_rune_Some [OF Some] have r: "r \<in> set rs" "r \<noteq> []" "prefix r s" by simp_all
    from "1.IH" [OF Some] obtain rl where rl: "set rl \<subseteq> set rs" "[] \<notin> set rl"
      "drop (length r) s = concat rl @ trim_leading rs (drop (length r) s)" by blast
    have t: "trim_leading rs s = trim_leading rs (drop (length r) s)"
      using Some by (subst trim_leading.simps) simp
    from r(3) have "s = r @ drop (length r) s" by (auto simp: prefix_def)
    with rl(3) t have "s = concat (r # rl) @ trim_leading rs s" by simp
    with rl(1,2) r(1,2) show ?thesis
      by (intro exI [of _ "r # rl"]) simp
  qed
qed

lemma trim_leading_stops: "leading_rune rs (trim_leading rs s) = None"
proof (induction rs s rule: trim_leading.induct)
  case (1 rs s)
  show ?case
  proof (cases "leading_rune rs s")
    case None
    then show ?thesis by (subst trim_leading.simps) simp
  next
    case (Some r)
    with "1.IH" [OF Some] show ?thesis by (subst trim_leading.simps) simp
  qed
qed

lemma only_white_space_concat:
  "only_white_space s \<longleftrightarrow> (\<exists>rl. set rl \<subseteq> set space_runes \<and> s = concat rl)"
proof
  assume "only_white_space s"
  then show "\<exists>rl. set rl \<subseteq> set space_runes \<and> s = concat rl"
  proof induction
    case empty
    show ?case by (intro exI [of _ "[]"]) simp
  next
    case (rune r s)
    then obtain rl where "set rl \<subseteq> set space_runes" "s = concat rl" by blast
    with rune.hyps(1) show ?case by (intro exI [of _ "r # rl"]) simp
  qed
next
  assume "\<exists>rl. set rl \<subseteq> set space_runes \<and> s = concat rl"
  then obtain rl where "set rl \<subseteq> set space_runes" "s = concat rl" by blast
  then show "only_white_space s"
    by (induction rl arbitrary: s) (auto intro: only_white_space.intros)
qed

lemma TrimLeft_only_white_space: "only_white_space s \<Longrightarrow> TrimLeft s = []"
proof (induction rule: only_white_space.induct)
  case empty
  show ?case
    unfolding TrimLeft_def by (subst trim_leading.simps) (simp add: leading_rune_def find_False)
next
  case (rune r s)
  then show ?case
    by (simp add: TrimLeft_def trim_leading_rune)
qed

lemma trim_leading_Nil: "trim_leading rs [] = []"
  by (subst trim_leading.simps) (simp add: leading_rune_def find_False)

lemma TrimSpace_empty_iff: "TrimSpace s = [] \<longleftrightarrow> only_white_space s"
proof
  assume "only_white_space s"
  then show "TrimSpace s = []"
    by (simp add: TrimSpace_def TrimLeft_only_white_space TrimRight_def trim_leading_Nil)
next
  assume e: "TrimSpace s = []"
  let ?t = "TrimLeft s"
  from trim_leading_decomp [of space_runes s] obtain rl where
    rl: "set rl \<subseteq> set space_runes" "s = concat rl @ ?t"
    unfolding TrimLeft_def by blast
  from e have "trim_leading (map rev space_runes) (rev ?t) = []"
    by (simp add: TrimSpace_def TrimRight_def)
  with trim_leading_decomp [of "map rev space_runes" "rev ?t"] obtain rl' where
    rl': "set rl' \<subseteq> set (map rev space_runes)" "[] \<notin> set rl'" "rev ?t = concat rl'"
    by auto
  have "?t = []"
  proof (rule ccontr)
    assume ne: "?t \<noteq> []"
    with rl'(3) have "rl' \<noteq> []" by auto
    then obtain rl0 x where sn: "rl' = rl0 @ [x]" by (metis rev_exhaust)
    from rl'(3) have "?t = rev (concat rl')" by (metis rev_rev_ident)
    with sn have t: "?t = rev x @ rev (concat rl0)" by simp
    from sn rl'(1,2) have "rev x \<in> set space_runes" "rev x \<noteq> []" by auto
    with t have "leading_rune space_runes ?t \<noteq> None"
      by (auto simp: leading_rune_None)
    with trim_leading_stops [of space_runes s] show False
      by (simp add: TrimLeft_def)
  qed
  with rl show "only_white_space s"
    by (auto simp: only_white_space_concat)
qed

lemma is_hex_digit_code: "is_hex_digit ch \<longleftrightarrow> (of_char ch :: nat) \<in> {48..57} \<union> {97..102} \<union> {65..70}"
proof -
  have "is_hex_digit ch \<longleftrightarrow> (of_char ch :: nat) \<in> of_char ` set ''0123456789abcdefABCDEF''"
    unfolding is_hex_digit_def by (rule inj_image_mem_iff [OF inj_of_char, symmetric])
  also have "\<dots> \<longleftrightarrow> (of_char ch :: nat) \<in> {48..57} \<union> {97..102} \<union> {65..70}"
    by simp presburger
  finally show ?thesis .
qed

lemma fromHexChar_is_hex_digit: "fromHexChar ch \<noteq> None \<longleftrightarrow> is_hex_digit ch"
  by (simp add: is_hex_digit_code fromHexChar_def Let_def)

lemma Decode_valid:
  "even (length s) \<Longrightarrow> (\<exists>md5. Decode s = Inr md5) \<longleftrightarrow> list_all is_hex_digit s"
proof (induction s rule: Decode.induct)
  case (1 x y rest)
  then have "even (length rest)" by simp
  show ?case
  proof (cases "fromHexChar x")
    case None
    then show ?thesis using fromHexChar_is_hex_digit [of x] by simp
  next
    case a: (Some a)
    show ?thesis
    proof (cases "fromHexChar y")
      case None
      then show ?thesis using a fromHexChar_is_hex_digit [of y] by simp
    next
      case b: (Some b)
      from a b "1.IH" [OF a b \<open>even (length rest)\<close>]
        fromHexChar_is_hex_digit [of x] fromHexChar_is_hex_digit [of y]
      show ?thesis
        by (auto split: sum.splits)
    qed
  qed
qed simp_all

lemma DecodeString_valid: "(\<exists>md5. DecodeString s = Inr md5) \<longleftrightarrow> valid_hex s"
  using Decode_valid [of s] by (auto simp: DecodeString_def valid_hex_def)

lemma DecodeString_error:
  "DecodeString s = Inl e \<Longrightarrow> e = ErrLength \<or> (\<exists>ch. e = InvalidByteError ch)"
proof -
  have "Decode s = Inl e \<Longrightarrow> \<exists>ch. e = InvalidByteError ch" for s
    by (induction s rule: Decode.induct) (auto split: option.splits sum.splits)
  then show "DecodeString s = Inl e \<Longrightarrow> e = ErrLength \<or> (\<exists>ch. e = InvalidByteError ch)"
    by (auto simp: DecodeString_def split: if_splits)
qed

lemma Header_Get_Set: "Header_Get (Header_Set k v h) k = Some v"
  by (induction h) (auto simp: Header_Get_def)


section \<open>The claims\<close>

subsection \<open>The completion gate\<close>

text \<open>
  C7. The goroutine calls \<open>Release\<close> exactly once, as its last action, on every path,
  and no execution of an upload that \<open>Put\<close> has started panics. On a handle whose
  counter is still one (as \<open>NewBlockingWriteCloser\<close> makes it) a first \<open>Release\<close>
  succeeds and stores a non-nil error; any second \<open>Release\<close> is the panic of \<open>Done\<close>
  on a counter that would become negative, and since the panic comes before the
  assignment, the stored error is not overwritten.
\<close>

theorem Release_exactly_once:
  "(\<exists>e. filter is_ReleaseCall (goroutine k c bucket object md5HexString size') = [ReleaseCall e]
        \<and> last (goroutine k c bucket object md5HexString size') = ReleaseCall e)
   \<and> (\<forall>u evs p. Put k c md5HexString size' = Inr u \<longrightarrow> run evs u \<noteq> Some (Inl p))
   \<and> release (NewBlockingWriteCloser pw) = 1
   \<and> (release b = 1 \<longrightarrow>
        (\<exists>b'. Release e1 b = Inr b'
             \<and> err b' = (case e1 of None \<Rightarrow> err b | Some x \<Rightarrow> Some x)
             \<and> Release e2 b' = Inl NegativeWaitGroupCounter))"
proof (intro conjI impI allI)
  show "\<exists>e. filter is_ReleaseCall (goroutine k c bucket object md5HexString size') = [ReleaseCall e]
        \<and> last (goroutine k c bucket object md5HexString size') = ReleaseCall e"
    using goroutine_cases [of k c bucket object md5HexString size']
    by (auto simp: abort_def)
next
  fix u evs p
  assume "Put k c md5HexString size' = Inr u"
  then show "run evs u \<noteq> Some (Inl p)"
    using Put_one_Done run_no_panic by blast
next
  show "release (NewBlockingWriteCloser pw) = 1"
    by (simp add: NewBlockingWriteCloser_def)
next
  assume "release b = 1"
  then show "\<exists>b'. Release e1 b = Inr b'
             \<and> err b' = (case e1 of None \<Rightarrow> err b | Some x \<Rightarrow> Some x)
             \<and> Release e2 b' = Inl NegativeWaitGroupCounter"
    by (simp add: Release_def Done_def record_err_def split: option.splits)
qed

theorem Release_exactly_once_witness:
  "map_sum id (\<lambda>u. release (handle u))
       (Put stub_collaborators (stub_client (Inl EOF)) [] 0) = Inr 1
   \<and> run [Work, Work, Work, Work, Work] \<lparr>handle = \<lparr>w = Pipe, release = 1, err = None\<rparr>,
         todo = [Transfer \<lparr>Method = ''PUT'', URL = ''/bucket/object'', ContentLength = 0, Header = []\<rparr>,
                 ReaderClose (Some (Iodine EOF)), WgDone, StoreErr (Iodine EOF)],
         sent = [], place = Outside, returned = []\<rparr> = None
   \<and> release (NewBlockingWriteCloser Pipe) = 1
   \<and> Release (Some EOF) (NewBlockingWriteCloser Pipe) = Inr \<lparr>w = Pipe, release = 0, err = Some EOF\<rparr>
   \<and> Release None \<lparr>w = Pipe, release = 0, err = Some EOF\<rparr> = Inl NegativeWaitGroupCounter"
proof -
  have p: "Put stub_collaborators (stub_client (Inl EOF)) [] 0
      = Inr \<lparr>handle = \<lparr>w = Pipe, release = 1, err = None\<rparr>,
         todo = [Transfer \<lparr>Method = ''PUT'', URL = ''/bucket/object'', ContentLength = 0, Header = []\<rparr>,
                 ReaderClose (Some (Iodine EOF)), WgDone, StoreErr (Iodine EOF)],
         sent = [], place = Outside, returned = []\<rparr>"
    by code_simp
  have r: "run [Work, Work, Work, Work, Work] \<lparr>handle = \<lparr>w = Pipe, release = 1, err = None\<rparr>,
         todo = [Transfer \<lparr>Method = ''PUT'', URL = ''/bucket/object'', ContentLength = 0, Header = []\<rparr>,
                 ReaderClose (Some (Iodine EOF)), WgDone, StoreErr (Iodine EOF)],
         sent = [], place = Outside, returned = []\<rparr> = None"
    by code_simp
  from Release_exactly_once [of stub_collaborators "stub_client (Inl EOF)" "[]" "[]" "[]" 0
      Pipe "NewBlockingWriteCloser Pipe" "Some EOF" None]
  have "release (NewBlockingWriteCloser Pipe) = 1
   \<and> Release (Some EOF) (NewBlockingWriteCloser Pipe) = Inr \<lparr>w = Pipe, release = 0, err = Some EOF\<rparr>
   \<and> Release None \<lparr>w = Pipe, release = 0, err = Some EOF\<rparr> = Inl NegativeWaitGroupCounter"
    by (simp add: NewBlockingWriteCloser_def Release_def Done_def record_err_def)
  with p r show ?thesis
    by simp
qed





subsection \<open>Writing and closing after a failure\<close>







subsection \<open>Validation of the declared length\<close>

lemma move_no_Transfer:
  assumes "move ev u = Some (Inr u')" and "\<forall>s \<in> set (todo u). \<not> is_Transfer s"
  shows "sent u' = sent u \<and> (\<forall>s \<in> set (todo u'). \<not> is_Transfer s)"
proof (cases ev)
  case Work
  from assms(1) Work obtain s rest where t: "todo u = s # rest"
    and e: "exec s (u\<lparr>todo := rest\<rparr>) = Inr u'"
    by (auto split: list.splits)
  from t assms(2) have "\<not> is_Transfer s" by simp
  with e have "sent u' = sent u"
    by (cases s) (auto split: sum.splits)
  moreover from exec_frame [OF e] have "todo u' = rest" by simp
  ultimately show ?thesis using t assms(2) by simp
next
  case (DoWrite bs)
  with assms show ?thesis by (auto split: if_splits prod.splits)
qed (use assms in \<open>auto split: if_splits\<close>)

lemma run_no_Transfer:
  "run evs u = Some (Inr u') \<Longrightarrow> \<forall>s \<in> set (todo u). \<not> is_Transfer s \<Longrightarrow> sent u' = sent u"
proof (induction evs arbitrary: u)
  case Nil
  then show ?case by simp
next
  case (Cons ev evs)
  from Cons.prems(1) obtain u1 where m: "move ev u = Some (Inr u1)" and r: "run evs u1 = Some (Inr u')"
    by (auto split: option.splits sum.splits)
  from move_no_Transfer [OF m Cons.prems(2)] Cons.IH [OF r] show ?case
    by simp
qed

lemma goroutine_negative:
  "sint size' < 0 \<Longrightarrow>
   goroutine k c bucket object md5HexString size' =
     [CloseWithError (Iodine (InvalidArgument ''invalid argument'')),
      ReleaseCall (Some (Iodine (InvalidArgument ''invalid argument'')))]"
  by (simp add: goroutine_def abort_def)

text \<open>
  C1, as the code has it. With a negative length \<open>Put\<close> checks the bucket name and
  nothing else: an invalid name is returned as \<open>InvalidBucketName\<close>; otherwise \<open>Put\<close>
  makes the pipe and the handle, starts the goroutine and returns the handle with a
  nil error. The goroutine then closes the reader with \<open>InvalidArgument\<close> and
  releases with the same error; a \<open>Close\<close> after the goroutine has finished returns
  it. No execution calls \<open>Transport.RoundTrip\<close>.
\<close>

theorem Put_negative_length:
  assumes "sint size' < 0"
  shows "Put k c md5HexString size' =
           (let (bucket, object) = url2BucketAndObject k c in
            if \<not> IsValidBucketName k bucket \<or> Contains bucket ''.''
            then Inl (Iodine (InvalidBucketName bucket))
            else Inr \<lparr>handle = \<lparr>w = \<lparr>rerr = None, werr = None\<rparr>, release = 1, err = None\<rparr>,
                      todo = [ReaderClose (Some (Iodine (InvalidArgument ''invalid argument''))),
                              WgDone,
                              StoreErr (Iodine (InvalidArgument ''invalid argument''))],
                      sent = [], place = Outside, returned = []\<rparr>)
       \<and> (\<forall>u. Put k c md5HexString size' = Inr u \<longrightarrow>
            results (run ([Work, Work, Work] @ close_call) u)
              = Some [CloseRet (Some (Iodine (InvalidArgument ''invalid argument'')))])
       \<and> (\<forall>u evs u'. Put k c md5HexString size' = Inr u \<and> run evs u = Some (Inr u') \<longrightarrow>
            sent u' = [])"
proof -
  let ?U = "\<lparr>handle = \<lparr>w = \<lparr>rerr = None, werr = None\<rparr>, release = 1, err = None\<rparr>,
             todo = [ReaderClose (Some (Iodine (InvalidArgument ''invalid argument''))),
                     WgDone,
                     StoreErr (Iodine (InvalidArgument ''invalid argument''))],
             sent = [], place = Outside, returned = []\<rparr>"
  have p: "Put k c md5HexString size' =
           (let (bucket, object) = url2BucketAndObject k c in
            if \<not> IsValidBucketName k bucket \<or> Contains bucket ''.''
            then Inl (Iodine (InvalidBucketName bucket))
            else Inr ?U)"
    using assms
    by (simp add: Put_def goroutine_negative NewBlockingWriteCloser_def Pipe_def
        split: prod.splits)
  have u: "u = ?U" if "Put k c md5HexString size' = Inr u" for u
    using that p by (auto simp: Let_def split: prod.splits if_splits)
  have c: "results (run ([Work, Work, Work] @ close_call) ?U)
             = Some [CloseRet (Some (Iodine (InvalidArgument ''invalid argument'')))]"
    by (simp add: close_call_def results_def Done_def record_err_def Close_writer_result
        PipeReader_CloseWithError_def)
  have n: "sent u' = []" if "run evs ?U = Some (Inr u')" for evs u'
    using run_no_Transfer [OF that] by simp
  from p u c n show ?thesis
    by blast
qed

theorem Put_negative_length_witness:
  "sint (- 1 :: 64 word) < 0
   \<and> Put stub_collaborators (stub_client (Inl EOF)) [] (- 1) =
       Inr \<lparr>handle = \<lparr>w = \<lparr>rerr = None, werr = None\<rparr>, release = 1, err = None\<rparr>,
            todo = [ReaderClose (Some (Iodine (InvalidArgument ''invalid argument''))),
                    WgDone,
                    StoreErr (Iodine (InvalidArgument ''invalid argument''))],
            sent = [], place = Outside, returned = []\<rparr>"
  using Put_negative_length [of "- 1" stub_collaborators "stub_client (Inl EOF)" "[]"]
  by (simp add: stub_collaborators_def)

text \<open>
  The claim C1 as it is written fails on every valid bucket name: for the length
  \<open>-1\<close> the value of \<open>Put\<close> is a handle (with a nil error), the pipe exists and the
  goroutine has been started.
\<close>

theorem Put_negative_length_returns_handle:
  "sint (- 1 :: 64 word) < 0
   \<and> Put stub_collaborators (stub_client (Inr \<lparr>StatusCode = 200, Body = []\<rparr>)) [] (- 1) \<noteq>
       Inl (Iodine (InvalidArgument ''invalid argument''))
   \<and> map_sum id handle
       (Put stub_collaborators (stub_client (Inr \<lparr>StatusCode = 200, Body = []\<rparr>)) [] (- 1)) =
       Inr \<lparr>w = \<lparr>rerr = None, werr = None\<rparr>, release = 1, err = None\<rparr>
   \<and> map_sum id todo
       (Put stub_collaborators (stub_client (Inr \<lparr>StatusCode = 200, Body = []\<rparr>)) [] (- 1)) =
       Inr [ReaderClose (Some (Iodine (InvalidArgument ''invalid argument''))), WgDone,
            StoreErr (Iodine (InvalidArgument ''invalid argument''))]"
  by code_simp

subsection \<open>The digest\<close>

lemma space_runes_lead_not_hex: "list_all (\<lambda>r. \<not> is_hex_digit (hd r)) space_runes"
  by code_simp

lemma valid_hex_not_white_space:
  assumes "valid_hex s" and "s \<noteq> []"
  shows "\<not> only_white_space s"
proof
  assume "only_white_space s"
  then show False
  proof (cases rule: only_white_space.cases)
    case empty
    with assms(2) show False by simp
  next
    case (rune r s')
    with space_runes_nonempty have "r \<noteq> []" by auto
    with rune(1) have "hd s = hd r" by simp
    moreover from assms have "is_hex_digit (hd s)"
      by (cases s) (simp_all add: valid_hex_def)
    moreover from rune(2) space_runes_lead_not_hex have "\<not> is_hex_digit (hd r)"
      by (simp add: list_all_iff)
    ultimately show False by simp
  qed
qed

lemma goroutine_no_RoundTrip:
  "goroutine k c bucket object md5HexString size' = abort e \<Longrightarrow>
   \<forall>a \<in> set (goroutine k c bucket object md5HexString size'). \<not> is_RoundTripCall a"
  by (simp add: abort_def)

lemma goroutine_bad_digest:
  assumes "TrimSpace md5HexString \<noteq> []" and "DecodeString md5HexString = Inl e"
  shows "\<exists>e'. goroutine k c bucket object md5HexString size' = abort e'"
    and "\<not> sint size' < 0 \<Longrightarrow> newRequest k c ''PUT'' (objectURL k c bucket object) = Inr req0 \<Longrightarrow>
         goroutine k c bucket object md5HexString size' = abort (Iodine e)"
  using assms by (auto simp: goroutine_def Content_MD5_def split: sum.splits)

text \<open>
  C6, as the code has it. The digest is looked at when \<open>strings.TrimSpace\<close> of it is
  not empty, that is when it does not consist only of white space. Such a digest that
  is not valid hex makes \<open>hex.DecodeString\<close> fail; the goroutine then ends by closing
  the reader and releasing with the wrapped error, and no path of it reaches
  \<open>Transport.RoundTrip\<close>. Every non-empty digest that is valid hex is looked at, and
  the \<open>Content-MD5\<close> header of the request becomes the standard base64 encoding of
  the decoded bytes; that request, signed if credentials are set, is the one the
  transport receives.
\<close>

theorem digest_checked:
  "(\<not> only_white_space md5HexString \<and> \<not> valid_hex md5HexString \<longrightarrow>
      (\<exists>e. DecodeString md5HexString = Inl e
           \<and> (e = ErrLength \<or> (\<exists>ch. e = InvalidByteError ch))
           \<and> Content_MD5 md5HexString req = Inl e
           \<and> (\<not> sint size' < 0
                \<and> newRequest k c ''PUT'' (objectURL k c bucket object) = Inr req \<longrightarrow>
                goroutine k c bucket object md5HexString size' = abort (Iodine e)))
      \<and> (\<forall>a \<in> set (goroutine k c bucket object md5HexString size'). \<not> is_RoundTripCall a))
   \<and> (valid_hex md5HexString \<and> md5HexString \<noteq> [] \<longrightarrow>
      (\<exists>md5. DecodeString md5HexString = Inr md5
           \<and> Content_MD5 md5HexString req
               = Inr (req\<lparr>Header := Header_Set ''Content-MD5'' (EncodeToString md5) (Header req)\<rparr>)
           \<and> Header_Get (Header_Set ''Content-MD5'' (EncodeToString md5) (Header req)) ''Content-MD5''
               = Some (EncodeToString md5)
           \<and> (\<not> sint size' < 0
                \<and> newRequest k c ''PUT'' (objectURL k c bucket object) = Inr req \<longrightarrow>
                hd (goroutine k c bucket object md5HexString size')
                  = RoundTripCall (sign k c
                      (req\<lparr>Method := ''PUT'', ContentLength := size',
                           Header := Header_Set ''Content-MD5'' (EncodeToString md5) (Header req)\<rparr>)))))"
proof (intro conjI impI)
  assume a: "\<not> only_white_space md5HexString \<and> \<not> valid_hex md5HexString"
  then have t: "TrimSpace md5HexString \<noteq> []"
    by (simp add: TrimSpace_empty_iff)
  from a obtain e where e: "DecodeString md5HexString = Inl e"
    using DecodeString_valid [of md5HexString] by (cases "DecodeString md5HexString") auto
  from goroutine_bad_digest(1) [OF t e] goroutine_no_RoundTrip
  show "\<forall>a \<in> set (goroutine k c bucket object md5HexString size'). \<not> is_RoundTripCall a"
    by blast
  from e t DecodeString_error [OF e] goroutine_bad_digest(2) [OF t e]
  show "\<exists>e. DecodeString md5HexString = Inl e
           \<and> (e = ErrLength \<or> (\<exists>ch. e = InvalidByteError ch))
           \<and> Content_MD5 md5HexString req = Inl e
           \<and> (\<not> sint size' < 0
                \<and> newRequest k c ''PUT'' (objectURL k c bucket object) = Inr req \<longrightarrow>
                goroutine k c bucket object md5HexString size' = abort (Iodine e))"
    by (auto simp: Content_MD5_def)
next
  assume a: "valid_hex md5HexString \<and> md5HexString \<noteq> []"
  then have t: "TrimSpace md5HexString \<noteq> []"
    using valid_hex_not_white_space by (simp add: TrimSpace_empty_iff)
  from a obtain md5 where d: "DecodeString md5HexString = Inr md5"
    using DecodeString_valid [of md5HexString] by blast
  have c: "Content_MD5 md5HexString r
             = Inr (r\<lparr>Header := Header_Set ''Content-MD5'' (EncodeToString md5) (Header r)\<rparr>)" for r
    using t d by (simp add: Content_MD5_def)
  have "hd (goroutine k c bucket object md5HexString size')
          = RoundTripCall (sign k c
              (req\<lparr>Method := ''PUT'', ContentLength := size',
                   Header := Header_Set ''Content-MD5'' (EncodeToString md5) (Header req)\<rparr>))"
    if "\<not> sint size' < 0" "newRequest k c ''PUT'' (objectURL k c bucket object) = Inr req"
    using goroutine_answer [OF that c] by simp
  with d c Header_Get_Set
  show "\<exists>md5. DecodeString md5HexString = Inr md5
           \<and> Content_MD5 md5HexString req
               = Inr (req\<lparr>Header := Header_Set ''Content-MD5'' (EncodeToString md5) (Header req)\<rparr>)
           \<and> Header_Get (Header_Set ''Content-MD5'' (EncodeToString md5) (Header req)) ''Content-MD5''
               = Some (EncodeToString md5)
           \<and> (\<not> sint size' < 0
                \<and> newRequest k c ''PUT'' (objectURL k c bucket object) = Inr req \<longrightarrow>
                hd (goroutine k c bucket object md5HexString size')
                  = RoundTripCall (sign k c
                      (req\<lparr>Method := ''PUT'', ContentLength := size',
                           Header := Header_Set ''Content-MD5'' (EncodeToString md5) (Header req)\<rparr>)))"
    by blast
qed

theorem digest_checked_witness:
  "\<not> only_white_space ''0g'' \<and> \<not> valid_hex ''0g''
   \<and> goroutine stub_collaborators (stub_client (Inr \<lparr>StatusCode = 200, Body = []\<rparr>))
        ''bucket'' ''object'' ''0g'' 0
       = [CloseWithError (Iodine (InvalidByteError CHR ''g'')),
          ReleaseCall (Some (Iodine (InvalidByteError CHR ''g'')))]
   \<and> valid_hex ''d41d8cd98f00b204e9800998ecf8427e''
   \<and> hd (goroutine stub_collaborators (stub_client (Inr \<lparr>StatusCode = 200, Body = []\<rparr>))
        ''bucket'' ''object'' ''d41d8cd98f00b204e9800998ecf8427e'' 0)
       = RoundTripCall \<lparr>Method = ''PUT'', URL = ''/bucket/object'', ContentLength = 0,
                        Header = [(''Content-MD5'', ''1B2M2Y8AsgTpgAmY7PhCfg=='')]\<rparr>"
proof -
  let ?c = "stub_client (Inr \<lparr>StatusCode = 200, Body = []\<rparr>)"
  let ?r = "\<lparr>Method = ''PUT'', URL = ''/bucket/object'', ContentLength = 0, Header = []\<rparr>"
  let ?md5 = "[212, 29, 140, 217, 143, 0, 178, 4, 233, 128, 9, 152, 236, 248, 66, 126] :: 8 word list"
  have n: "\<not> sint (0 :: 64 word) < 0
      \<and> newRequest stub_collaborators ?c ''PUT'' (objectURL stub_collaborators ?c ''bucket'' ''object'')
          = Inr ?r"
    by (simp add: stub_collaborators_def)
  have w: "\<not> only_white_space ''0g''"
    unfolding TrimSpace_empty_iff [symmetric] by code_simp
  have i: "\<not> valid_hex ''0g''"
    by code_simp
  have d1: "DecodeString ''0g'' = Inl (InvalidByteError CHR ''g'')"
    by code_simp
  from digest_checked [of "''0g''" ?r 0 stub_collaborators ?c "''bucket''" "''object''"] w i n d1
  have g1: "goroutine stub_collaborators ?c ''bucket'' ''object'' ''0g'' 0
              = abort (Iodine (InvalidByteError CHR ''g''))"
    by auto
  have v: "valid_hex ''d41d8cd98f00b204e9800998ecf8427e''"
    by code_simp
  have d2: "DecodeString ''d41d8cd98f00b204e9800998ecf8427e'' = Inr ?md5"
    by code_simp
  have e2: "EncodeToString ?md5 = ''1B2M2Y8AsgTpgAmY7PhCfg==''"
    by code_simp
  from digest_checked [of "''d41d8cd98f00b204e9800998ecf8427e''" ?r 0 stub_collaborators ?c
      "''bucket''" "''object''"] v n d2
  have "hd (goroutine stub_collaborators ?c ''bucket'' ''object''
              ''d41d8cd98f00b204e9800998ecf8427e'' 0)
          = RoundTripCall (sign stub_collaborators ?c
              (?r\<lparr>Method := ''PUT'', ContentLength := 0,
                   Header := Header_Set ''Content-MD5'' (EncodeToString ?md5) (Header ?r)\<rparr>))"
    by auto
  then have g2: "hd (goroutine stub_collaborators ?c ''bucket'' ''object''
              ''d41d8cd98f00b204e9800998ecf8427e'' 0)
          = RoundTripCall \<lparr>Method = ''PUT'', URL = ''/bucket/object'', ContentLength = 0,
                        Header = [(''Content-MD5'', ''1B2M2Y8AsgTpgAmY7PhCfg=='')]\<rparr>"
    unfolding e2 by (simp add: sign_def stub_client_def)
  from w i g1 v g2 show ?thesis
    by (simp add: abort_def)
qed

text \<open>
  The claim C6 as it is written fails on a digest of one space: it is not empty and
  not valid hex, yet the goroutine sends the request (without the header), and with
  the answer 200 the upload succeeds.
\<close>

theorem blank_digest_not_rejected:
  "'' '' \<noteq> [] \<and> \<not> valid_hex '' ''
   \<and> goroutine stub_collaborators (stub_client (Inr \<lparr>StatusCode = 200, Body = []\<rparr>))
        ''bucket'' ''object'' '' '' 0
       = [RoundTripCall \<lparr>Method = ''PUT'', URL = ''/bucket/object'', ContentLength = 0, Header = []\<rparr>,
          CloseReader, ReleaseCall None]"
  by code_simp

text \<open>
  C9. A digest that is empty or consists only of white space is not looked at: the
  request keeps its header as it was, no error arises from the digest, and the
  goroutine does exactly what it does for the empty digest; with a length that is not
  negative and a request that could be built, it goes on to the transport.
\<close>

theorem blank_digest_ignored:
  assumes "only_white_space md5HexString"
  shows "Content_MD5 md5HexString req = Inr req
       \<and> goroutine k c bucket object md5HexString size' = goroutine k c bucket object [] size'
       \<and> (\<not> sint size' < 0
            \<and> newRequest k c ''PUT'' (objectURL k c bucket object) = Inr req \<longrightarrow>
            hd (goroutine k c bucket object md5HexString size')
              = RoundTripCall (sign k c (req\<lparr>Method := ''PUT'', ContentLength := size'\<rparr>)))"
proof -
  from assms have t: "TrimSpace md5HexString = []"
    by (simp add: TrimSpace_empty_iff)
  have t0: "TrimSpace [] = []"
    by (simp add: TrimSpace_empty_iff only_white_space.empty)
  from t have c: "Content_MD5 md5HexString r = Inr r" for r
    by (simp add: Content_MD5_def)
  from t0 have c0: "Content_MD5 [] r = Inr r" for r
    by (simp add: Content_MD5_def)
  have "goroutine k c bucket object md5HexString size' = goroutine k c bucket object [] size'"
    by (simp add: goroutine_def c c0 split: sum.splits)
  moreover have "hd (goroutine k c bucket object md5HexString size')
              = RoundTripCall (sign k c (req\<lparr>Method := ''PUT'', ContentLength := size'\<rparr>))"
    if "\<not> sint size' < 0" "newRequest k c ''PUT'' (objectURL k c bucket object) = Inr req"
    using goroutine_answer [OF that c] by simp
  ultimately show ?thesis
    using c by blast
qed

theorem blank_digest_ignored_witness:
  "only_white_space [CHR 0x20, CHR 0xC2, CHR 0xA0, CHR 0x09, CHR 0xE3, CHR 0x80, CHR 0x80]
   \<and> goroutine stub_collaborators (stub_client (Inr \<lparr>StatusCode = 200, Body = []\<rparr>))
        ''bucket'' ''object'' [CHR 0x20, CHR 0xC2, CHR 0xA0, CHR 0x09, CHR 0xE3, CHR 0x80, CHR 0x80] 0
       = [RoundTripCall \<lparr>Method = ''PUT'', URL = ''/bucket/object'', ContentLength = 0, Header = []\<rparr>,
          CloseReader, ReleaseCall None]"
proof -
  have h: "only_white_space [CHR 0x20, CHR 0xC2, CHR 0xA0, CHR 0x09, CHR 0xE3, CHR 0x80, CHR 0x80]"
    unfolding TrimSpace_empty_iff [symmetric] by code_simp
  have g: "goroutine stub_collaborators (stub_client (Inr \<lparr>StatusCode = 200, Body = []\<rparr>))
        ''bucket'' ''object'' [] 0
       = [RoundTripCall \<lparr>Method = ''PUT'', URL = ''/bucket/object'', ContentLength = 0, Header = []\<rparr>,
          CloseReader, ReleaseCall None]"
    by code_simp
  from blank_digest_ignored [OF h, of _ stub_collaborators
      "stub_client (Inr \<lparr>StatusCode = 200, Body = []\<rparr>)" "''bucket''" "''object''" 0] g h
  show ?thesis
    by simp
qed

subsection \<open>The outcome seen by \<open>Close\<close>\<close>

text \<open>
  C2, evaluated on the code. The transport fails; the goroutine closes the reader
  with the wrapped error and calls \<open>Release\<close> with the same error. The caller is
  already blocked in \<open>Close\<close>. \<open>Release\<close> calls \<open>Done\<close> first; \<open>Wait\<close> returns and
  \<open>Close\<close> reads \<open>b.err\<close> before the goroutine's assignment to it: \<open>Close\<close> returns
  nil for an upload that has failed.
\<close>

theorem blocked_Close_misses_failure:
  "goroutine stub_collaborators (stub_client (Inl (Failure ''connection reset'')))
     ''bucket'' ''object'' [] 0
   = [RoundTripCall \<lparr>Method = ''PUT'', URL = ''/bucket/object'', ContentLength = 0, Header = []\<rparr>,
      CloseWithError (Iodine (Failure ''connection reset'')),
      ReleaseCall (Some (Iodine (Failure ''connection reset'')))]
   \<and> observed [EnterClose, Work, Work, Work, Wake, Return, Work]
       (Put stub_collaborators (stub_client (Inl (Failure ''connection reset''))) [] 0)
     = Some [CloseRet None]
   \<and> observed [EnterClose, Work, Work, Work, Work, Wake, Return]
       (Put stub_collaborators (stub_client (Inl (Failure ''connection reset''))) [] 0)
     = Some [CloseRet (Some (Iodine (Failure ''connection reset'')))]"
  by code_simp

theorem blocked_Close_misses_failure_witness:
  "IsValidBucketName stub_collaborators ''bucket'' \<and> \<not> Contains ''bucket'' ''.''
   \<and> observed [EnterClose, Work, Work, Work, Wake, Return, Work]
       (Put stub_collaborators (stub_client (Inl (Failure ''connection reset''))) [] 0)
     = Some [CloseRet None]"
  using blocked_Close_misses_failure
  by (simp add: stub_collaborators_def)

text \<open>
  C4, evaluated on the code. The transport answers 403 with the body \<open>Forbidden\<close>;
  the goroutine takes this as a failure and releases with the wrapped \<open>NewError\<close> of
  the response. When the caller's \<open>Close\<close> runs between the \<open>Done\<close> and the
  assignment in \<open>Release\<close>, it returns nil; when it runs after \<open>Release\<close> has returned,
  it returns the error.
\<close>

theorem Close_nil_after_403:
  "goroutine stub_collaborators (stub_client (Inr \<lparr>StatusCode = 403, Body = ''Forbidden''\<rparr>))
     ''bucket'' ''object'' [] 0
   = [RoundTripCall \<lparr>Method = ''PUT'', URL = ''/bucket/object'', ContentLength = 0, Header = []\<rparr>,
      CloseWithError (Iodine (NewError \<lparr>StatusCode = 403, Body = ''Forbidden''\<rparr>)),
      ReleaseCall (Some (Iodine (NewError \<lparr>StatusCode = 403, Body = ''Forbidden''\<rparr>)))]
   \<and> observed [Work, Work, Work, EnterClose, Wake, Return, Work]
       (Put stub_collaborators (stub_client (Inr \<lparr>StatusCode = 403, Body = ''Forbidden''\<rparr>)) [] 0)
     = Some [CloseRet None]
   \<and> observed [Work, Work, Work, Work, EnterClose, Wake, Return]
       (Put stub_collaborators (stub_client (Inr \<lparr>StatusCode = 403, Body = ''Forbidden''\<rparr>)) [] 0)
     = Some [CloseRet (Some (Iodine (NewError \<lparr>StatusCode = 403, Body = ''Forbidden''\<rparr>)))]"
  by code_simp

theorem Close_nil_after_403_witness:
  "IsValidBucketName stub_collaborators ''bucket'' \<and> \<not> Contains ''bucket'' ''.''
   \<and> observed [Work, Work, Work, EnterClose, Wake, Return, Work]
       (Put stub_collaborators (stub_client (Inr \<lparr>StatusCode = 403, Body = ''Forbidden''\<rparr>)) [] 0)
     = Some [CloseRet None]"
  using Close_nil_after_403
  by (simp add: stub_collaborators_def)


end
